theory Spec2Isabelle
  imports Complex_Main
begin

section \<open>Python values and exceptions\<close>

text \<open>
  The values that \<^verbatim>\<open>json.loads\<close> produces and that the \<^verbatim>\<open>JSON\<close> column of the
  \<^verbatim>\<open>tasks\<close> table holds. Python's \<^verbatim>\<open>None\<close> is \<open>JNull\<close>: a column that holds no
  result reads as \<^verbatim>\<open>None\<close>, and so does a stored JSON \<^verbatim>\<open>null\<close>. A float is
  represented by its exact value (only the test against zero is ever observed; NaN and the
  infinities, which no JSON column stores, are left out); a
  \<^verbatim>\<open>dict\<close> is the list of its items in insertion order, with distinct keys.
\<close>

datatype json =
    JNull
  | JBool bool
  | JInt int
  | JFloat rat
  | JString string
  | JArray "json list"
  | JObject "(string \<times> json) list"

text \<open>Python's truth value of an object, as \<^verbatim>\<open>if x:\<close> tests it.\<close>

fun truthy :: "json \<Rightarrow> bool" where
  "truthy JNull = False"
| "truthy (JBool b) = b"
| "truthy (JInt i) = (i \<noteq> 0)"
| "truthy (JFloat r) = (r \<noteq> 0)"
| "truthy (JString s) = (s \<noteq> [])"
| "truthy (JArray xs) = (xs \<noteq> [])"
| "truthy (JObject kvs) = (kvs \<noteq> [])"

text \<open>
  Python's \<^verbatim>\<open>x == y\<close> on these values. \<^verbatim>\<open>bool\<close>, \<^verbatim>\<open>int\<close> and \<^verbatim>\<open>float\<close> are
  compared as numbers (\<^verbatim>\<open>True == 1 == 1.0\<close>), lists item by item, and two \<^verbatim>\<open>dict\<close>s
  are equal when they have the same keys with equal values, in any order.
\<close>

fun py_number :: "json \<Rightarrow> rat option" where
  "py_number (JBool b) = Some (if b then 1 else 0)"
| "py_number (JInt i) = Some (of_int i)"
| "py_number (JFloat r) = Some r"
| "py_number _ = None"

fun py_eq :: "json \<Rightarrow> json \<Rightarrow> bool" where
  "py_eq JNull y = (y = JNull)"
| "py_eq (JBool b) y = (py_number y = Some (if b then 1 else 0))"
| "py_eq (JInt i) y = (py_number y = Some (of_int i))"
| "py_eq (JFloat r) y = (py_number y = Some r)"
| "py_eq (JString s) y = (y = JString s)"
| "py_eq (JArray xs) y =
     (case y of JArray ys \<Rightarrow> list_all2 py_eq xs ys | _ \<Rightarrow> False)"
| "py_eq (JObject kvs) y =
     (case y of
        JObject kws \<Rightarrow>
          length kvs = length kws
          \<and> list_all (\<lambda>(k, v). case map_of kws k of None \<Rightarrow> False | Some w \<Rightarrow> py_eq v w) kvs
      | _ \<Rightarrow> False)"

text \<open>
  The exceptions of the program, all of them subclasses of \<^verbatim>\<open>Exception\<close> (what
  \<^verbatim>\<open>except Exception\<close> catches). \<open>LibraryError\<close> is an exception raised inside an
  external library (requests, together, json, sqlalchemy) with its message;
  \<open>Exception msg e\<close> is \<^verbatim>\<open>Exception(f"{msg}{e}")\<close>.
\<close>

datatype exn =
    KeyError string
  | TypeError
  | AttributeError
  | IndexError
  | LibraryError string
  | IntegrityError
  | Exception string exn
  | HTTPException nat string

text \<open>Sequencing of statements that may raise: the first exception ends the block.\<close>

definition bind_exn :: "exn + 'a \<Rightarrow> ('a \<Rightarrow> exn + 'b) \<Rightarrow> exn + 'b" where
  "bind_exn m f = (case m of Inl e \<Rightarrow> Inl e | Inr x \<Rightarrow> f x)"

text \<open>\<^verbatim>\<open>obj[key]\<close> with a string key: only a \<^verbatim>\<open>dict\<close> can be indexed so.\<close>

fun py_getitem :: "json \<Rightarrow> string \<Rightarrow> exn + json" where
  "py_getitem (JObject kvs) k =
     (case map_of kvs k of None \<Rightarrow> Inl (KeyError k) | Some v \<Rightarrow> Inr v)"
| "py_getitem _ k = Inl TypeError"

text \<open>\<^verbatim>\<open>xs[0]\<close> on a list.\<close>

fun py_first :: "'a list \<Rightarrow> exn + 'a" where
  "py_first [] = Inl IndexError"
| "py_first (x # xs) = Inr x"

text \<open>
  \<^verbatim>\<open>s.replace(old, new)\<close>: every occurrence of \<open>old\<close>, found from the left and not
  overlapping, is replaced. With an empty \<open>old\<close>, Python puts \<open>new\<close> before every
  character and at the end.
\<close>

function str_replace :: "string \<Rightarrow> string \<Rightarrow> string \<Rightarrow> string" where
  "str_replace s old new =
     (if old = [] then new @ concat (map (\<lambda>c. c # new) s)
      else if s = [] then []
      else if take (length old) s = old
        then new @ str_replace (drop (length old) s) old new
      else hd s # str_replace (tl s) old new)"
  by pat_completeness auto
termination
  by (relation "measure (\<lambda>(s, old, new). length s)") auto

text \<open>\<^verbatim>\<open>x.replace(old, new)\<close> on a value that need not be a string.\<close>

fun py_replace :: "json \<Rightarrow> string \<Rightarrow> string \<Rightarrow> exn + string" where
  "py_replace (JString s) old new = Inr (str_replace s old new)"
| "py_replace _ old new = Inl AttributeError"

text \<open>What the program prints, one entry for each \<^verbatim>\<open>print\<close>, with its arguments.\<close>

datatype log =
    Print_url string
  | Failed_to_process_image exn
  | Task_not_found string
  | Task_processed string
  | Error_processing_task string exn

section \<open>The extraction collaborator: \<^verbatim>\<open>json_parser.py\<close>\<close>

text \<open>
  The outside world of \<^verbatim>\<open>JsonParser\<close>: the file host answering
  \<^verbatim>\<open>requests.post\<close>, the model service answering
  \<^verbatim>\<open>client.chat.completions.create\<close> (for the fixed model and prompt, given the
  image URL, the \<^verbatim>\<open>message.content\<close> of each of the response's choices), and the
  library function \<^verbatim>\<open>json.loads\<close>.
\<close>

record http_response =
  status_code :: nat
  json_body :: "exn + json"

record extraction_env =
  requests_post :: "string \<Rightarrow> exn + http_response"
  chat_completions_create :: "string \<Rightarrow> exn + string option list"
  json_loads :: "string \<Rightarrow> exn + json"

definition raise_for_status :: "http_response \<Rightarrow> exn + unit" where
  "raise_for_status response =
     (if 400 \<le> status_code response \<and> status_code response < 600
      then Inl (LibraryError ''HTTPError'') else Inr ())"

text \<open>The body of the \<^verbatim>\<open>try\<close> of \<^verbatim>\<open>_upload_to_tmpfiles\<close>, up to the \<^verbatim>\<open>print\<close>.\<close>

definition upload_to_tmpfiles_try :: "extraction_env \<Rightarrow> string \<Rightarrow> exn + string" where
  "upload_to_tmpfiles_try env image_data =
     bind_exn (requests_post env image_data) (\<lambda>response.
     bind_exn (raise_for_status response) (\<lambda>u.
     bind_exn (json_body response) (\<lambda>upload_data.
     bind_exn (py_getitem upload_data ''data'') (\<lambda>d.
     bind_exn (py_getitem d ''url'') (\<lambda>url.
     py_replace url ''tmpfiles.org'' ''tmpfiles.org/dl'')))))"

definition upload_to_tmpfiles :: "extraction_env \<Rightarrow> string \<Rightarrow> (exn + string) \<times> log list" where
  "upload_to_tmpfiles env image_data =
     (case upload_to_tmpfiles_try env image_data of
        Inr file_url \<Rightarrow> (Inr file_url, [Print_url file_url])
      | Inl e \<Rightarrow> (Inl (Exception ''Failed to upload image to tmpfiles.org: '' e), []))"

text \<open>
  \<^verbatim>\<open>response.choices[0].message.content\<close> with the two \<^verbatim>\<open>replace\<close> calls; a
  content of \<^verbatim>\<open>None\<close> has no \<^verbatim>\<open>replace\<close>.
\<close>

definition strip_fences :: "string option \<Rightarrow> exn + string" where
  "strip_fences content =
     (case content of
        None \<Rightarrow> Inl AttributeError
      | Some json_text \<Rightarrow> Inr (str_replace (str_replace json_text ''```json'' []) ''```'' []))"

text \<open>The body of the \<^verbatim>\<open>try\<close> of \<^verbatim>\<open>parse_image\<close>.\<close>

definition parse_image_try :: "extraction_env \<Rightarrow> string \<Rightarrow> (exn + json) \<times> log list" where
  "parse_image_try env image_data =
     (case upload_to_tmpfiles env image_data of (r, out) \<Rightarrow>
        (bind_exn r (\<lambda>image_url.
         bind_exn (chat_completions_create env image_url) (\<lambda>choices.
         bind_exn (py_first choices) (\<lambda>content.
         bind_exn (strip_fences content) (\<lambda>json_text.
         json_loads env json_text)))), out))"

definition parse_image :: "extraction_env \<Rightarrow> string \<Rightarrow> (exn + json) \<times> log list" where
  "parse_image env image_data =
     (case parse_image_try env image_data of
        (Inr v, out) \<Rightarrow> (Inr v, out)
      | (Inl e, out) \<Rightarrow> (Inr (JObject []), out @ [Failed_to_process_image e]))"

section \<open>The task store: \<^verbatim>\<open>database.py\<close>\<close>

text \<open>
  A row of the \<^verbatim>\<open>tasks\<close> table, and the table as the list of its rows, in the order
  of their insertion. Timestamps are points of a clock.
\<close>

record task =
  task_id :: string
  image_data :: string
  extracted_json :: json
  created_at :: nat
  updated_at :: nat

type_synonym table = "task list"

text \<open>
  A session (\<^verbatim>\<open>autocommit=False, autoflush=False\<close>): the committed table it reads,
  the objects given to \<^verbatim>\<open>db.add\<close> and the attribute assignments made on loaded
  objects; both wait in the session until \<^verbatim>\<open>db.commit()\<close>.
\<close>

record session =
  committed :: table
  pending_new :: "(string \<times> string) list"
  pending_upd :: "(string \<times> json) list"

text \<open>
  What the database does at a commit: whether the durable write fails, and the value of
  \<^verbatim>\<open>datetime.utcnow\<close> for the column defaults (one reading of the clock for a
  commit). Reading the table does not fail.
\<close>

record db_env =
  commit_error :: "exn option"
  utcnow :: nat

definition SessionLocal :: "table \<Rightarrow> session" where
  "SessionLocal tbl = \<lparr>committed = tbl, pending_new = [], pending_upd = []\<rparr>"

text \<open>\<^verbatim>\<open>db.query(Task).filter(Task.task_id == task_id).first()\<close>\<close>

definition query_first :: "session \<Rightarrow> string \<Rightarrow> task option" where
  "query_first db tid = find (\<lambda>row. task_id row = tid) (committed db)"

text \<open>\<^verbatim>\<open>db.add(Task(task_id=task_id, image_data=contents))\<close>\<close>

definition db_add :: "session \<Rightarrow> string \<Rightarrow> string \<Rightarrow> session" where
  "db_add db tid contents = db\<lparr>pending_new := pending_new db @ [(tid, contents)]\<rparr>"

text \<open>\<^verbatim>\<open>task.extracted_json = json_data\<close> on the object loaded with key \<open>tid\<close>.\<close>

definition set_extracted_json :: "session \<Rightarrow> string \<Rightarrow> json \<Rightarrow> session" where
  "set_extracted_json db tid json_data = db\<lparr>pending_upd := pending_upd db @ [(tid, json_data)]\<rparr>"

text \<open>The INSERT of a new object: no result, both timestamps from their default.\<close>

fun insert_row :: "nat \<Rightarrow> table \<Rightarrow> string \<times> string \<Rightarrow> table" where
  "insert_row now tbl (tid, contents) =
     tbl @ [\<lparr>task_id = tid, image_data = contents, extracted_json = JNull,
             created_at = now, updated_at = now\<rparr>]"

text \<open>
  The flush of an assigned attribute of the object with primary key \<open>tid\<close>. The session
  compares the assigned value with the loaded one by \<^verbatim>\<open>==\<close>: when they are equal no
  UPDATE is sent and the row stays as it is; otherwise the UPDATE writes the value, and
  the \<^verbatim>\<open>onupdate\<close> of \<^verbatim>\<open>updated_at\<close> stamps the row.
\<close>

definition set_result :: "nat \<Rightarrow> string \<Rightarrow> json \<Rightarrow> task \<Rightarrow> task" where
  "set_result now tid json_data row =
     (if task_id row = tid \<and> \<not> py_eq json_data (extracted_json row)
      then row\<lparr>extracted_json := json_data, updated_at := now\<rparr>
      else row)"

fun update_row :: "nat \<Rightarrow> table \<Rightarrow> string \<times> json \<Rightarrow> table" where
  "update_row now tbl (tid, json_data) = map (set_result now tid json_data) tbl"

text \<open>
  \<^verbatim>\<open>db.commit()\<close>: a storage failure, or a new primary key that is already in the
  table, raises and writes nothing; otherwise the pending inserts and the pending
  assignments that changed a value become durable.
\<close>

definition db_commit :: "db_env \<Rightarrow> session \<Rightarrow> (exn + unit) \<times> session" where
  "db_commit denv db =
     (case commit_error denv of
        Some e \<Rightarrow> (Inl e, db)
      | None \<Rightarrow>
          if list_ex (\<lambda>new. fst new \<in> set (map task_id (committed db))) (pending_new db)
          then (Inl IntegrityError, db)
          else (Inr (),
                \<lparr>committed = foldl (update_row (utcnow denv))
                               (foldl (insert_row (utcnow denv)) (committed db) (pending_new db))
                               (pending_upd db),
                 pending_new = [], pending_upd = []\<rparr>))"

definition db_rollback :: "session \<Rightarrow> session" where
  "db_rollback db = db\<lparr>pending_new := [], pending_upd := []\<rparr>"

text \<open>
  \<^verbatim>\<open>db.close()\<close>, at the end of \<^verbatim>\<open>get_db\<close>: what is still pending is lost, the
  committed table stays.
\<close>

definition db_close :: "session \<Rightarrow> table" where
  "db_close db = committed db"

section \<open>The task processor: \<^verbatim>\<open>background_tasks.py\<close>\<close>

text \<open>
  The inner \<^verbatim>\<open>try\<close> of \<^verbatim>\<open>process_task\<close>, for the loaded \<open>task\<close>. The module's
  \<^verbatim>\<open>json_parser.parse_image\<close> is the parameter \<open>collaborator\<close>.
\<close>

definition process_task_try ::
  "(string \<Rightarrow> (exn + json) \<times> log list) \<Rightarrow> db_env \<Rightarrow> session \<Rightarrow> string \<Rightarrow> task
     \<Rightarrow> (exn + unit) \<times> session \<times> log list" where
  "process_task_try collaborator denv db tid task =
     (case collaborator (image_data task) of
        (Inl e, out) \<Rightarrow> (Inl e, db, out)
      | (Inr json_data, out) \<Rightarrow>
          (case db_commit denv (set_extracted_json db (task_id task) json_data) of
             (Inl e, db') \<Rightarrow> (Inl e, db', out)
           | (Inr u, db') \<Rightarrow> (Inr (), db', out @ [Task_processed tid])))"

text \<open>
  \<^verbatim>\<open>process_task(task_id)\<close> on the table \<open>tbl\<close>: what it raises (nothing, when
  \<open>Inr ()\<close>), the table it leaves and what it printed.
\<close>

definition process_task ::
  "(string \<Rightarrow> (exn + json) \<times> log list) \<Rightarrow> db_env \<Rightarrow> table \<Rightarrow> string
     \<Rightarrow> (exn + unit) \<times> table \<times> log list" where
  "process_task collaborator denv tbl tid =
     (let db = SessionLocal tbl in
      case query_first db tid of
        None \<Rightarrow> (Inr (), db_close db, [Task_not_found tid])
      | Some task \<Rightarrow>
          (case process_task_try collaborator denv db tid task of
             (Inr u, db', out) \<Rightarrow> (Inr (), db_close db', out)
           | (Inl e, db', out) \<Rightarrow>
               (Inr (), db_close (db_rollback db'), out @ [Error_processing_task tid e])))"

text \<open>The module's \<^verbatim>\<open>json_parser = JsonParser()\<close> with its \<^verbatim>\<open>parse_image\<close>.\<close>

definition json_parser :: "extraction_env \<Rightarrow> string \<Rightarrow> (exn + json) \<times> log list" where
  "json_parser env = parse_image env"

section \<open>The task API: \<^verbatim>\<open>frontend_routers.py\<close>\<close>

text \<open>
  A response \<^verbatim>\<open>dict\<close>, as the list of its items. \<^verbatim>\<open>response[key] = value\<close>
  replaces the value of a key that is there and appends a new key.
\<close>

type_synonym response = "(string \<times> json) list"

fun setitem :: "response \<Rightarrow> string \<Rightarrow> json \<Rightarrow> response" where
  "setitem [] key v = [(key, v)]"
| "setitem ((k, w) # items) key v =
     (if k = key then (k, v) # items else (k, w) # setitem items key v)"

text \<open>
  \<^verbatim>\<open>create_task\<close>: \<open>uuid4\<close> is the identifier that \<^verbatim>\<open>Task.generate_task_id()\<close>
  draws, \<open>background_tasks\<close> the queue of the arguments given to
  \<^verbatim>\<open>add_task(process_task, _)\<close>, or \<^verbatim>\<open>None\<close>. An exception of the commit leaves the
  handler at once, and the session of the request is closed. \<^verbatim>\<open>db.refresh\<close> reads the
  committed row again and changes nothing.
\<close>

definition create_task ::
  "string \<Rightarrow> db_env \<Rightarrow> table \<Rightarrow> string \<Rightarrow> string list option
     \<Rightarrow> (exn + response) \<times> table \<times> string list option" where
  "create_task uuid4 denv tbl contents background_tasks =
     (let tid = uuid4;
          db = db_add (SessionLocal tbl) tid contents in
      case db_commit denv db of
        (Inl e, db') \<Rightarrow> (Inl e, db_close db', background_tasks)
      | (Inr u, db') \<Rightarrow>
          (Inr [(''task_id'', JString tid)],
           db_close db',
           (case background_tasks of
              None \<Rightarrow> None
            | Some queue \<Rightarrow> Some (queue @ [tid]))))"

definition get_task :: "table \<Rightarrow> string \<Rightarrow> exn + response" where
  "get_task tbl tid =
     (case query_first (SessionLocal tbl) tid of
        None \<Rightarrow> Inl (HTTPException 404 ''Task not found'')
      | Some task \<Rightarrow>
          (let response = [(''task_id'', JString (task_id task))] in
           if extracted_json task = JNull
           then Inr (setitem response ''status'' (JString ''processing''))
           else (let response = setitem response ''status'' (JString ''completed'') in
                 if truthy (extracted_json task)
                 then Inr (setitem response ''extracted_json'' (extracted_json task))
                 else Inr response)))"

section \<open>Example worlds\<close>

text \<open>The file host cannot be reached: every call of the collaborator fails.\<close>

definition offline_env :: extraction_env where
  "offline_env =
     \<lparr>requests_post = (\<lambda>img. Inl (LibraryError ''ConnectionError'')),
      chat_completions_create = (\<lambda>url. Inl (LibraryError ''APIConnectionError'')),
      json_loads = (\<lambda>txt. Inl (LibraryError ''JSONDecodeError''))\<rparr>"

text \<open>
  The upload succeeds, the model answers with a fenced text, and \<^verbatim>\<open>json.loads\<close>
  knows that one text.
\<close>

definition stub_env :: extraction_env where
  "stub_env =
     \<lparr>requests_post = (\<lambda>img.
        Inr \<lparr>status_code = 200,
             json_body = Inr (JObject [(''data'',
               JObject [(''url'', JString ''https://tmpfiles.org/1/receipt.jpg'')])])\<rparr>),
      chat_completions_create = (\<lambda>url.
        Inr [Some ''```json{\"total_amount\": 12.5, \"items\": []}```'']),
      json_loads = (\<lambda>txt.
        if txt = ''{\"total_amount\": 12.5, \"items\": []}''
        then Inr (JObject [(''total_amount'', JFloat (25 / 2)), (''items'', JArray [])])
        else Inl (LibraryError ''JSONDecodeError''))\<rparr>"

text \<open>The upload succeeds and the model service fails.\<close>

definition model_down_env :: extraction_env where
  "model_down_env =
     stub_env\<lparr>chat_completions_create := (\<lambda>url. Inl (LibraryError ''ServiceUnavailableError''))\<rparr>"

text \<open>The model answers with a text that is not JSON.\<close>

definition garbled_env :: extraction_env where
  "garbled_env =
     stub_env\<lparr>chat_completions_create := (\<lambda>url. Inr [Some ''```I cannot read this receipt.```''])\<rparr>"

text \<open>A collaborator that raises, in place of \<^verbatim>\<open>json_parser.parse_image\<close>.\<close>

definition raising_stub :: "string \<Rightarrow> (exn + json) \<times> log list" where
  "raising_stub img = (Inl (LibraryError ''TimeoutError''), [])"

section \<open>Lemmas about the store and the processor\<close>

lemma query_first_task_id: "query_first db tid = Some t \<Longrightarrow> task_id t = tid"
  by (auto simp: query_first_def find_Some_iff)

lemma task_id_set_result [simp]: "task_id (set_result now tid j row) = task_id row"
  by (simp add: set_result_def)

lemma py_eq_empty_object: "py_eq (JObject []) y \<longleftrightarrow> y = JObject []"
  by (cases y) auto

lemma set_result_empty_object:
  "task_id t = tid \<Longrightarrow>
     set_result now tid (JObject []) t =
       (if extracted_json t = JObject [] then t
        else t\<lparr>extracted_json := JObject [], updated_at := now\<rparr>)"
  by (simp add: set_result_def py_eq_empty_object del: py_eq.simps)

lemma find_set_result:
  "find (\<lambda>row. task_id row = k) (map (set_result now tid j) tbl) =
     map_option (set_result now tid j) (find (\<lambda>row. task_id row = k) tbl)"
  by (induction tbl) simp_all

lemma query_first_set_result:
  "query_first (SessionLocal (map (set_result now tid j) tbl)) k =
     map_option (set_result now tid j) (query_first (SessionLocal tbl) k)"
  by (simp add: query_first_def SessionLocal_def find_set_result)

lemma find_append_fresh:
  "tid \<notin> set (map task_id tbl) \<Longrightarrow>
     find (\<lambda>row. task_id row = tid) (tbl @ rows) = find (\<lambda>row. task_id row = tid) rows"
  by (induction tbl) auto

lemma query_first_new_row:
  assumes "uuid \<notin> set (map task_id tbl)"
  shows "query_first (SessionLocal (tbl @ [\<lparr>task_id = uuid, image_data = contents,
            extracted_json = JNull, created_at = now, updated_at = now\<rparr>])) uuid =
         Some \<lparr>task_id = uuid, image_data = contents,
            extracted_json = JNull, created_at = now, updated_at = now\<rparr>"
  using assms by (simp add: query_first_def SessionLocal_def find_append_fresh)

lemma db_close_SessionLocal: "db_close (SessionLocal tbl) = tbl"
  by (simp add: db_close_def SessionLocal_def)

lemma db_commit_failure: "commit_error denv = Some e \<Longrightarrow> db_commit denv db = (Inl e, db)"
  by (simp add: db_commit_def)

lemma db_commit_update:
  "commit_error denv = None \<Longrightarrow>
     db_commit denv (set_extracted_json (SessionLocal tbl) tid j) =
       (Inr (), SessionLocal (map (set_result (utcnow denv) tid j) tbl))"
  by (simp add: db_commit_def set_extracted_json_def SessionLocal_def)

lemma truthy_not_null: "truthy j \<Longrightarrow> j \<noteq> JNull"
  by (cases j) simp_all

lemma get_task_found:
  assumes "query_first (SessionLocal tbl) tid = Some t"
  shows "get_task tbl tid =
     Inr ([(''task_id'', JString tid),
           (''status'', JString (if extracted_json t = JNull then ''processing'' else ''completed''))]
          @ (if truthy (extracted_json t) then [(''extracted_json'', extracted_json t)] else []))"
  using assms query_first_task_id[OF assms] truthy_not_null[of "extracted_json t"]
  by (auto simp: get_task_def)

lemma parse_image_returns: "\<exists>v out. parse_image env img = (Inr v, out)"
  by (cases "parse_image_try env img" rule: prod.exhaust)
     (auto simp: parse_image_def split: sum.splits)

lemma parse_image_failure:
  "fst (parse_image_try env img) = Inl e \<Longrightarrow>
     parse_image env img =
       (Inr (JObject []), snd (parse_image_try env img) @ [Failed_to_process_image e])"
  by (cases "parse_image_try env img") (simp add: parse_image_def)

lemma parse_image_failure_result:
  "fst (parse_image_try env img) = Inl e \<Longrightarrow> fst (parse_image env img) = Inr (JObject [])"
  by (simp add: parse_image_failure)

lemma parse_image_try_upload_error:
  "fst (upload_to_tmpfiles env img) = Inl e \<Longrightarrow> fst (parse_image_try env img) = Inl e"
  by (cases "upload_to_tmpfiles env img") (simp add: parse_image_try_def bind_exn_def)

lemma parse_image_try_model_error:
  "fst (upload_to_tmpfiles env img) = Inr image_url \<Longrightarrow>
   chat_completions_create env image_url = Inl e \<Longrightarrow> fst (parse_image_try env img) = Inl e"
  by (cases "upload_to_tmpfiles env img") (simp add: parse_image_try_def bind_exn_def)

lemma parse_image_try_unparsable:
  "fst (upload_to_tmpfiles env img) = Inr image_url \<Longrightarrow>
   chat_completions_create env image_url = Inr (Some json_text # choices) \<Longrightarrow>
   json_loads env (str_replace (str_replace json_text ''```json'' []) ''```'' []) = Inl e \<Longrightarrow>
   fst (parse_image_try env img) = Inl e"
  by (cases "upload_to_tmpfiles env img")
     (simp add: parse_image_try_def bind_exn_def strip_fences_def)

lemma process_task_absent:
  "query_first (SessionLocal tbl) tid = None \<Longrightarrow>
     process_task collaborator denv tbl tid = (Inr (), tbl, [Task_not_found tid])"
  by (simp add: process_task_def db_close_def SessionLocal_def)

lemma process_task_stored:
  assumes "query_first (SessionLocal tbl) tid = Some t"
    and "collaborator (image_data t) = (Inr j, out)"
    and "commit_error denv = None"
  shows "process_task collaborator denv tbl tid =
           (Inr (), map (set_result (utcnow denv) tid j) tbl, out @ [Task_processed tid])"
  using assms query_first_task_id[OF assms(1)]
  by (simp add: process_task_def process_task_try_def db_commit_update db_close_SessionLocal)

lemma process_task_raised:
  assumes "query_first (SessionLocal tbl) tid = Some t"
    and "process_task_try collaborator denv (SessionLocal tbl) tid t = (Inl e, db', out)"
  shows "process_task collaborator denv tbl tid = (Inr (), tbl, out @ [Error_processing_task tid e])"
    and "db_rollback db' = SessionLocal tbl"
  using assms
  by (auto simp: process_task_def process_task_try_def db_commit_def db_close_def db_rollback_def
      SessionLocal_def set_extracted_json_def Let_def split: prod.splits sum.splits option.splits if_splits)

lemma process_task_table:
  "fst (snd (process_task collaborator denv tbl tid)) = tbl
   \<or> (\<exists>j. fst (snd (process_task collaborator denv tbl tid)) = map (set_result (utcnow denv) tid j) tbl)"
proof (cases "query_first (SessionLocal tbl) tid")
  case None
  then show ?thesis by (simp add: process_task_absent)
next
  case (Some t)
  obtain r db' out where t: "process_task_try collaborator denv (SessionLocal tbl) tid t = (r, db', out)"
    by (cases "process_task_try collaborator denv (SessionLocal tbl) tid t") auto
  show ?thesis
  proof (cases r)
    case (Inl e)
    with process_task_raised(1)[OF Some] t show ?thesis by simp
  next
    case (Inr u)
    obtain x out0 where c: "collaborator (image_data t) = (x, out0)"
      by (cases "collaborator (image_data t)") auto
    with t Inr obtain j where j: "x = Inr j"
      by (cases x) (auto simp: process_task_try_def)
    have ce: "commit_error denv = None"
      using t Inr c j by (cases "commit_error denv") (auto simp: process_task_try_def db_commit_failure)
    show ?thesis using process_task_stored[where collaborator = collaborator, OF Some c[unfolded j] ce] by auto
  qed
qed

lemma create_task_committed:
  assumes "commit_error denv = None" and "uuid \<notin> set (map task_id tbl)"
  shows "create_task uuid denv tbl contents bg =
     (Inr [(''task_id'', JString uuid)],
      tbl @ [\<lparr>task_id = uuid, image_data = contents, extracted_json = JNull,
               created_at = utcnow denv, updated_at = utcnow denv\<rparr>],
      (case bg of None \<Rightarrow> None | Some queue \<Rightarrow> Some (queue @ [uuid])))"
  using assms
  by (simp add: create_task_def db_commit_def db_add_def SessionLocal_def db_close_def)

lemma create_task_storage_failure:
  assumes "commit_error denv = Some e"
  shows "create_task uuid denv tbl contents bg = (Inl e, tbl, bg)"
  using assms
  by (simp add: create_task_def db_commit_def db_add_def SessionLocal_def db_close_def)

lemma create_task_duplicate_key:
  assumes "commit_error denv = None" and "uuid \<in> set (map task_id tbl)"
  shows "create_task uuid denv tbl contents bg = (Inl IntegrityError, tbl, bg)"
  using assms
  by (simp add: create_task_def db_commit_def db_add_def SessionLocal_def db_close_def)

lemma create_task_cases:
  "(\<exists>e. create_task uuid denv tbl contents bg = (Inl e, tbl, bg))
   \<or> (uuid \<notin> set (map task_id tbl) \<and> commit_error denv = None)"
proof (cases "commit_error denv")
  case None
  then show ?thesis using create_task_duplicate_key[OF None] by blast
next
  case (Some e)
  then show ?thesis using create_task_storage_failure by blast
qed


section \<open>The example worlds and the scenario of one task\<close>

lemma offline_parse_image_try:
  "parse_image_try offline_env img =
     (Inl (Exception ''Failed to upload image to tmpfiles.org: '' (LibraryError ''ConnectionError'')), [])"
  by (simp add: parse_image_try_def upload_to_tmpfiles_def upload_to_tmpfiles_try_def
      offline_env_def bind_exn_def)

lemma stub_upload:
  "upload_to_tmpfiles stub_env img =
     (Inr ''https://tmpfiles.org/dl/1/receipt.jpg'', [Print_url ''https://tmpfiles.org/dl/1/receipt.jpg''])"
  by (simp add: upload_to_tmpfiles_def upload_to_tmpfiles_try_def stub_env_def bind_exn_def
      raise_for_status_def)

lemma model_down_upload:
  "upload_to_tmpfiles model_down_env img =
     (Inr ''https://tmpfiles.org/dl/1/receipt.jpg'', [Print_url ''https://tmpfiles.org/dl/1/receipt.jpg''])"
  by (simp add: upload_to_tmpfiles_def upload_to_tmpfiles_try_def model_down_env_def stub_env_def
      bind_exn_def raise_for_status_def)

lemma garbled_upload:
  "upload_to_tmpfiles garbled_env img =
     (Inr ''https://tmpfiles.org/dl/1/receipt.jpg'', [Print_url ''https://tmpfiles.org/dl/1/receipt.jpg''])"
  by (simp add: upload_to_tmpfiles_def upload_to_tmpfiles_try_def garbled_env_def stub_env_def
      bind_exn_def raise_for_status_def)

lemma garbled_text:
  "str_replace (str_replace ''```I cannot read this receipt.```'' ''```json'' []) ''```'' [] =
     ''I cannot read this receipt.''"
  by simp

lemma stub_parse_image:
  "parse_image stub_env img =
     (Inr (JObject [(''total_amount'', JFloat (25 / 2)), (''items'', JArray [])]),
      [Print_url ''https://tmpfiles.org/dl/1/receipt.jpg''])"
  by (simp add: parse_image_def parse_image_try_def stub_upload bind_exn_def strip_fences_def)
     (simp add: stub_env_def)

lemma scenario_query:
  "query_first (SessionLocal (\<lparr>task_id = ''abc123'', image_data = img, extracted_json = j,
       created_at = c, updated_at = u\<rparr> # rows)) ''abc123'' =
     Some \<lparr>task_id = ''abc123'', image_data = img, extracted_json = j, created_at = c, updated_at = u\<rparr>"
  by (simp add: query_first_def SessionLocal_def)

lemma stub_process_two_rows:
  "process_task (json_parser stub_env) \<lparr>commit_error = None, utcnow = 3\<rparr>
       [\<lparr>task_id = ''abc123'', image_data = ''fake-image'', extracted_json = JNull,
         created_at = 1, updated_at = 1\<rparr>,
        \<lparr>task_id = ''def456'', image_data = ''other-image'', extracted_json = JNull,
         created_at = 2, updated_at = 2\<rparr>] ''abc123'' =
     (Inr (),
      [\<lparr>task_id = ''abc123'', image_data = ''fake-image'',
        extracted_json = JObject [(''total_amount'', JFloat (25 / 2)), (''items'', JArray [])],
        created_at = 1, updated_at = 3\<rparr>,
       \<lparr>task_id = ''def456'', image_data = ''other-image'', extracted_json = JNull,
        created_at = 2, updated_at = 2\<rparr>],
      [Print_url ''https://tmpfiles.org/dl/1/receipt.jpg'', Task_processed ''abc123''])"
  by (simp add: process_task_def process_task_try_def json_parser_def stub_parse_image
      query_first_def SessionLocal_def db_commit_def set_extracted_json_def
      set_result_def db_close_def)


section \<open>The claims\<close>

subsection \<open>C1\<close>

text \<open>
  Claim C1, as the code has it. The poll includes the payload under \<^verbatim>\<open>extracted_json\<close>
  exactly when the stored result is not \<^verbatim>\<open>None\<close> and is true as a Python condition
  (\<^verbatim>\<open>if task.extracted_json:\<close>), so an empty object is left out. After the processor
  has run on a task whose collaborator failed, and the commit succeeded, the poll answers
  with the identifier and the status "completed" and no payload.
\<close>

theorem get_task_payload_iff_truthy:
  "(query_first (SessionLocal tbl) tid = Some t \<longrightarrow>
      (\<exists>resp. get_task tbl tid = Inr resp
         \<and> map_of resp ''extracted_json'' =
             (if extracted_json t \<noteq> JNull \<and> truthy (extracted_json t)
              then Some (extracted_json t) else None)))
   \<and> (query_first (SessionLocal tbl) tid = Some t
        \<and> fst (parse_image_try env (image_data t)) = Inl e
        \<and> commit_error denv = None \<longrightarrow>
      get_task (fst (snd (process_task (json_parser env) denv tbl tid))) tid =
        Inr [(''task_id'', JString tid), (''status'', JString ''completed'')])"
proof (intro conjI impI)
  assume q: "query_first (SessionLocal tbl) tid = Some t"
  show "\<exists>resp. get_task tbl tid = Inr resp
         \<and> map_of resp ''extracted_json'' =
             (if extracted_json t \<noteq> JNull \<and> truthy (extracted_json t)
              then Some (extracted_json t) else None)"
    using truthy_not_null[of "extracted_json t"] by (auto simp: get_task_found[OF q])
next
  assume a: "query_first (SessionLocal tbl) tid = Some t
        \<and> fst (parse_image_try env (image_data t)) = Inl e
        \<and> commit_error denv = None"
  then have q: "query_first (SessionLocal tbl) tid = Some t"
    and c: "commit_error denv = None" by simp_all
  have p: "json_parser env (image_data t) =
      (Inr (JObject []), snd (parse_image_try env (image_data t)) @ [Failed_to_process_image e])"
    using a by (simp add: json_parser_def parse_image_failure)
  have id: "task_id t = tid" by (rule query_first_task_id[OF q])
  have "query_first (SessionLocal (map (set_result (utcnow denv) tid (JObject [])) tbl)) tid =
      Some (set_result (utcnow denv) tid (JObject []) t)"
    by (simp add: query_first_set_result q)
  from get_task_found[OF this]
  show "get_task (fst (snd (process_task (json_parser env) denv tbl tid))) tid =
        Inr [(''task_id'', JString tid), (''status'', JString ''completed'')]"
    by (simp add: process_task_stored[where collaborator = "json_parser env", OF q p c]
        set_result_empty_object[OF id])
qed

text \<open>The theorem at one task, with its hypotheses met.\<close>

theorem get_task_payload_iff_truthy_witness:
  "query_first (SessionLocal
       [\<lparr>task_id = ''abc123'', image_data = ''fake-image'', extracted_json = JNull,
         created_at = 1, updated_at = 1\<rparr>]) ''abc123'' =
     Some \<lparr>task_id = ''abc123'', image_data = ''fake-image'', extracted_json = JNull,
           created_at = 1, updated_at = 1\<rparr>
   \<and> fst (parse_image_try offline_env ''fake-image'') =
       Inl (Exception ''Failed to upload image to tmpfiles.org: '' (LibraryError ''ConnectionError''))
   \<and> commit_error \<lparr>commit_error = None, utcnow = 2\<rparr> = None
   \<and> (\<exists>resp. get_task
          [\<lparr>task_id = ''abc123'', image_data = ''fake-image'', extracted_json = JNull,
            created_at = 1, updated_at = 1\<rparr>] ''abc123'' = Inr resp
        \<and> map_of resp ''extracted_json'' = None)
   \<and> get_task (fst (snd (process_task (json_parser offline_env) \<lparr>commit_error = None, utcnow = 2\<rparr>
          [\<lparr>task_id = ''abc123'', image_data = ''fake-image'', extracted_json = JNull,
            created_at = 1, updated_at = 1\<rparr>] ''abc123''))) ''abc123'' =
       Inr [(''task_id'', JString ''abc123''), (''status'', JString ''completed'')]
   \<and> (\<exists>resp. get_task
          [\<lparr>task_id = ''abc123'', image_data = ''fake-image'',
            extracted_json = JObject [(''total_amount'', JFloat (25 / 2)), (''items'', JArray [])],
            created_at = 1, updated_at = 2\<rparr>] ''abc123'' = Inr resp
        \<and> map_of resp ''extracted_json'' =
            Some (JObject [(''total_amount'', JFloat (25 / 2)), (''items'', JArray [])]))"
  using get_task_payload_iff_truthy[where tbl = "[\<lparr>task_id = ''abc123'',
      image_data = ''fake-image'',
      extracted_json = JObject [(''total_amount'', JFloat (25 / 2)), (''items'', JArray [])],
      created_at = 1, updated_at = 2\<rparr>]" and tid = "''abc123''"
      and t = "\<lparr>task_id = ''abc123'', image_data = ''fake-image'',
      extracted_json = JObject [(''total_amount'', JFloat (25 / 2)), (''items'', JArray [])],
      created_at = 1, updated_at = 2\<rparr>"]
    get_task_payload_iff_truthy[where tbl = "[\<lparr>task_id = ''abc123'', image_data = ''fake-image'',
      extracted_json = JNull, created_at = 1, updated_at = 1\<rparr>]" and tid = "''abc123''"
      and t = "\<lparr>task_id = ''abc123'', image_data = ''fake-image'',
      extracted_json = JNull, created_at = 1, updated_at = 1\<rparr>" and env = offline_env
      and e = "Exception ''Failed to upload image to tmpfiles.org: '' (LibraryError ''ConnectionError'')"
      and denv = "\<lparr>commit_error = None, utcnow = 2\<rparr>"]
  by (simp add: scenario_query offline_parse_image_try)

text \<open>
  Claim C1 as it is stated (the payload is there exactly when the task is completed and the
  stored result is not null; after a run with a failing collaborator the poll carries
  \<^verbatim>\<open>"extracted_json": {}\<close>) does not hold: with the file host unreachable the
  processor stores the empty object, and the poll on that row has no
  \<^verbatim>\<open>extracted_json\<close> item.
\<close>

theorem get_task_empty_result_counterexample:
  "process_task (json_parser offline_env) \<lparr>commit_error = None, utcnow = 2\<rparr>
     [\<lparr>task_id = ''abc123'', image_data = ''fake-image'', extracted_json = JNull,
       created_at = 1, updated_at = 1\<rparr>] ''abc123'' =
     (Inr (),
      [\<lparr>task_id = ''abc123'', image_data = ''fake-image'', extracted_json = JObject [],
        created_at = 1, updated_at = 2\<rparr>],
      [Failed_to_process_image
         (Exception ''Failed to upload image to tmpfiles.org: '' (LibraryError ''ConnectionError'')),
       Task_processed ''abc123''])
   \<and> JObject [] \<noteq> JNull
   \<and> get_task
       [\<lparr>task_id = ''abc123'', image_data = ''fake-image'', extracted_json = JObject [],
         created_at = 1, updated_at = 2\<rparr>] ''abc123'' =
     Inr [(''task_id'', JString ''abc123''), (''status'', JString ''completed'')]
   \<and> get_task
       [\<lparr>task_id = ''abc123'', image_data = ''fake-image'', extracted_json = JObject [],
         created_at = 1, updated_at = 2\<rparr>] ''abc123'' \<noteq>
     Inr [(''task_id'', JString ''abc123''), (''status'', JString ''completed''),
          (''extracted_json'', JObject [])]"
  by (simp add: process_task_def process_task_try_def json_parser_def parse_image_def
      offline_parse_image_try query_first_def SessionLocal_def db_commit_def set_extracted_json_def
      set_result_def db_close_def get_task_def)

subsection \<open>C2\<close>

text \<open>
  Claim C2, as the code has it. For an existing task, when the collaborator fails (the
  body of the \<^verbatim>\<open>try\<close> of \<^verbatim>\<open>parse_image\<close> raises) and the commit of the result
  succeeds, the processor returns without raising, the stored result is the empty object
  (written with a new \<^verbatim>\<open>updated_at\<close>, unless the row held the empty object before),
  and the poll that follows answers with the identifier and the status "completed":
  neither "processing" nor an error.
\<close>

theorem collaborator_failure_completes_task:
  assumes q: "query_first (SessionLocal tbl) tid = Some t"
    and f: "fst (parse_image_try env (image_data t)) = Inl e"
    and c: "commit_error denv = None"
  shows "\<exists>tbl' out.
           process_task (json_parser env) denv tbl tid = (Inr (), tbl', out)
         \<and> query_first (SessionLocal tbl') tid =
             Some (if extracted_json t = JObject [] then t
                   else t\<lparr>extracted_json := JObject [], updated_at := utcnow denv\<rparr>)
         \<and> get_task tbl' tid = Inr [(''task_id'', JString tid), (''status'', JString ''completed'')]"
proof -
  have p: "json_parser env (image_data t) =
      (Inr (JObject []), snd (parse_image_try env (image_data t)) @ [Failed_to_process_image e])"
    using f by (simp add: json_parser_def parse_image_failure)
  have id: "task_id t = tid" by (rule query_first_task_id[OF q])
  let ?tbl' = "map (set_result (utcnow denv) tid (JObject [])) tbl"
  have q': "query_first (SessionLocal ?tbl') tid = Some (set_result (utcnow denv) tid (JObject []) t)"
    by (simp add: query_first_set_result q)
  have r: "query_first (SessionLocal ?tbl') tid =
      Some (if extracted_json t = JObject [] then t
            else t\<lparr>extracted_json := JObject [], updated_at := utcnow denv\<rparr>)"
    using q' by (simp add: set_result_empty_object[OF id])
  have "get_task ?tbl' tid = Inr [(''task_id'', JString tid), (''status'', JString ''completed'')]"
    using get_task_found[OF q'] by (simp add: set_result_empty_object[OF id])
  with r process_task_stored[where collaborator = "json_parser env", OF q p c]
  show ?thesis by blast
qed

text \<open>The theorem at one task, with its hypotheses met.\<close>

theorem collaborator_failure_completes_task_witness:
  "query_first (SessionLocal
       [\<lparr>task_id = ''abc123'', image_data = ''fake-image'', extracted_json = JNull,
         created_at = 1, updated_at = 1\<rparr>]) ''abc123'' =
     Some \<lparr>task_id = ''abc123'', image_data = ''fake-image'', extracted_json = JNull,
           created_at = 1, updated_at = 1\<rparr>
   \<and> fst (parse_image_try offline_env ''fake-image'') =
       Inl (Exception ''Failed to upload image to tmpfiles.org: '' (LibraryError ''ConnectionError''))
   \<and> commit_error \<lparr>commit_error = None, utcnow = 2\<rparr> = None
   \<and> (\<exists>tbl' out.
         process_task (json_parser offline_env) \<lparr>commit_error = None, utcnow = 2\<rparr>
           [\<lparr>task_id = ''abc123'', image_data = ''fake-image'', extracted_json = JNull,
             created_at = 1, updated_at = 1\<rparr>] ''abc123'' = (Inr (), tbl', out)
       \<and> query_first (SessionLocal tbl') ''abc123'' =
           Some \<lparr>task_id = ''abc123'', image_data = ''fake-image'', extracted_json = JObject [],
                 created_at = 1, updated_at = 2\<rparr>
       \<and> get_task tbl' ''abc123'' =
           Inr [(''task_id'', JString ''abc123''), (''status'', JString ''completed'')])
   \<and> (\<exists>tbl' out.
         process_task (json_parser offline_env) \<lparr>commit_error = None, utcnow = 3\<rparr>
           [\<lparr>task_id = ''abc123'', image_data = ''fake-image'', extracted_json = JObject [],
             created_at = 1, updated_at = 2\<rparr>] ''abc123'' = (Inr (), tbl', out)
       \<and> query_first (SessionLocal tbl') ''abc123'' =
           Some \<lparr>task_id = ''abc123'', image_data = ''fake-image'', extracted_json = JObject [],
                 created_at = 1, updated_at = 2\<rparr>
       \<and> get_task tbl' ''abc123'' =
           Inr [(''task_id'', JString ''abc123''), (''status'', JString ''completed'')])"
  using collaborator_failure_completes_task[where tbl = "[\<lparr>task_id = ''abc123'',
      image_data = ''fake-image'', extracted_json = JObject [], created_at = 1, updated_at = 2\<rparr>]"
      and tid = "''abc123''"
      and t = "\<lparr>task_id = ''abc123'', image_data = ''fake-image'',
      extracted_json = JObject [], created_at = 1, updated_at = 2\<rparr>" and env = offline_env
      and e = "Exception ''Failed to upload image to tmpfiles.org: '' (LibraryError ''ConnectionError'')"
      and denv = "\<lparr>commit_error = None, utcnow = 3\<rparr>"]
    collaborator_failure_completes_task[where tbl = "[\<lparr>task_id = ''abc123'',
      image_data = ''fake-image'', extracted_json = JNull, created_at = 1, updated_at = 1\<rparr>]"
      and tid = "''abc123''"
      and t = "\<lparr>task_id = ''abc123'', image_data = ''fake-image'',
      extracted_json = JNull, created_at = 1, updated_at = 1\<rparr>" and env = offline_env
      and e = "Exception ''Failed to upload image to tmpfiles.org: '' (LibraryError ''ConnectionError'')"
      and denv = "\<lparr>commit_error = None, utcnow = 2\<rparr>"]
  by (simp add: scenario_query offline_parse_image_try)

text \<open>
  Claim C2 as it is stated (whenever the collaborator fails on an existing task, the empty
  result is stored and the poll never answers "processing" again) does not hold without
  the condition on the commit: with the file host unreachable and the commit failing, the
  handler of \<^verbatim>\<open>process_task\<close> rolls back, the row keeps no result, and the poll answers
  "processing".
\<close>

theorem collaborator_and_commit_failure_counterexample:
  "query_first (SessionLocal
       [\<lparr>task_id = ''abc123'', image_data = ''fake-image'', extracted_json = JNull,
         created_at = 1, updated_at = 1\<rparr>]) ''abc123'' =
     Some \<lparr>task_id = ''abc123'', image_data = ''fake-image'', extracted_json = JNull,
           created_at = 1, updated_at = 1\<rparr>
   \<and> fst (parse_image_try offline_env ''fake-image'') =
       Inl (Exception ''Failed to upload image to tmpfiles.org: '' (LibraryError ''ConnectionError''))
   \<and> process_task (json_parser offline_env)
       \<lparr>commit_error = Some (LibraryError ''OperationalError''), utcnow = 2\<rparr>
       [\<lparr>task_id = ''abc123'', image_data = ''fake-image'', extracted_json = JNull,
         created_at = 1, updated_at = 1\<rparr>] ''abc123'' =
     (Inr (),
      [\<lparr>task_id = ''abc123'', image_data = ''fake-image'', extracted_json = JNull,
        created_at = 1, updated_at = 1\<rparr>],
      [Failed_to_process_image
         (Exception ''Failed to upload image to tmpfiles.org: '' (LibraryError ''ConnectionError'')),
       Error_processing_task ''abc123'' (LibraryError ''OperationalError'')])
   \<and> get_task
       [\<lparr>task_id = ''abc123'', image_data = ''fake-image'', extracted_json = JNull,
         created_at = 1, updated_at = 1\<rparr>] ''abc123'' =
     Inr [(''task_id'', JString ''abc123''), (''status'', JString ''processing'')]"
  by (simp add: process_task_def process_task_try_def json_parser_def parse_image_def
      offline_parse_image_try query_first_def SessionLocal_def db_commit_def set_extracted_json_def
      db_rollback_def db_close_def get_task_def)

subsection \<open>C3\<close>

text \<open>
  Claim C3. For a stored task the status of the poll depends on the stored row alone: it
  is "processing" if and only if \<^verbatim>\<open>extracted_json\<close> is \<^verbatim>\<open>None\<close>, and "completed" if
  and only if it is not.
\<close>

theorem get_task_status_from_stored_state:
  assumes "query_first (SessionLocal tbl) tid = Some t"
  shows "\<exists>resp. get_task tbl tid = Inr resp
           \<and> (map_of resp ''status'' = Some (JString ''processing'') \<longleftrightarrow> extracted_json t = JNull)
           \<and> (map_of resp ''status'' = Some (JString ''completed'') \<longleftrightarrow> extracted_json t \<noteq> JNull)"
  by (simp add: get_task_found[OF assms])

text \<open>The theorem at one task, with its hypotheses met.\<close>

theorem get_task_status_from_stored_state_witness:
  "query_first (SessionLocal
       [\<lparr>task_id = ''abc123'', image_data = ''fake-image'', extracted_json = JObject [],
         created_at = 1, updated_at = 2\<rparr>]) ''abc123'' =
     Some \<lparr>task_id = ''abc123'', image_data = ''fake-image'', extracted_json = JObject [],
           created_at = 1, updated_at = 2\<rparr>
   \<and> (\<exists>resp. get_task
          [\<lparr>task_id = ''abc123'', image_data = ''fake-image'', extracted_json = JObject [],
            created_at = 1, updated_at = 2\<rparr>] ''abc123'' = Inr resp
        \<and> map_of resp ''status'' \<noteq> Some (JString ''processing'')
        \<and> map_of resp ''status'' = Some (JString ''completed''))"
  using get_task_status_from_stored_state[where tbl = "[\<lparr>task_id = ''abc123'',
      image_data = ''fake-image'', extracted_json = JObject [], created_at = 1, updated_at = 2\<rparr>]"
      and tid = "''abc123''"
      and t = "\<lparr>task_id = ''abc123'', image_data = ''fake-image'',
      extracted_json = JObject [], created_at = 1, updated_at = 2\<rparr>"]
  by (simp add: scenario_query)

subsection \<open>C4\<close>

text \<open>
  Claim C4. When no row has the identifier, \<^verbatim>\<open>process_task\<close> prints that the task was
  not found and returns: it raises nothing and the table is the one it was given, whatever
  the collaborator and the database would have done.
\<close>

theorem process_task_absent_noop:
  assumes "query_first (SessionLocal tbl) tid = None"
  shows "process_task collaborator denv tbl tid = (Inr (), tbl, [Task_not_found tid])"
  using assms by (rule process_task_absent)

text \<open>The theorem at one task, with its hypotheses met.\<close>

theorem process_task_absent_noop_witness:
  "query_first (SessionLocal
       [\<lparr>task_id = ''abc123'', image_data = ''fake-image'', extracted_json = JNull,
         created_at = 1, updated_at = 1\<rparr>]) ''nonexistent'' = None
   \<and> process_task (json_parser stub_env) \<lparr>commit_error = None, utcnow = 2\<rparr>
       [\<lparr>task_id = ''abc123'', image_data = ''fake-image'', extracted_json = JNull,
         created_at = 1, updated_at = 1\<rparr>] ''nonexistent'' =
     (Inr (),
      [\<lparr>task_id = ''abc123'', image_data = ''fake-image'', extracted_json = JNull,
        created_at = 1, updated_at = 1\<rparr>],
      [Task_not_found ''nonexistent''])"
proof -
  have q: "query_first (SessionLocal
       [\<lparr>task_id = ''abc123'', image_data = ''fake-image'', extracted_json = JNull,
         created_at = 1, updated_at = 1\<rparr>]) ''nonexistent'' = None"
    by (simp add: query_first_def SessionLocal_def)
  show ?thesis
    using q process_task_absent_noop[OF q, of "json_parser stub_env" "\<lparr>commit_error = None, utcnow = 2\<rparr>"]
    by simp
qed

subsection \<open>C5\<close>

text \<open>
  Claim C5, as the code has it. When the inner \<^verbatim>\<open>try\<close> of \<^verbatim>\<open>process_task\<close> raises
  for an existing task (the collaborator raises or the commit fails), the handler rolls the
  session back to the state it was opened in and the processor finishes without raising
  and without writing: the table is unchanged.
\<close>

theorem process_task_error_rolls_back:
  assumes "query_first (SessionLocal tbl) tid = Some t"
    and "process_task_try collaborator denv (SessionLocal tbl) tid t = (Inl e, db', out)"
  shows "db_rollback db' = SessionLocal tbl
       \<and> process_task collaborator denv tbl tid =
           (Inr (), tbl, out @ [Error_processing_task tid e])"
  using process_task_raised[OF assms] by simp

text \<open>The theorem at one task, with its hypotheses met.\<close>

theorem process_task_error_rolls_back_witness:
  "query_first (SessionLocal
       [\<lparr>task_id = ''abc123'', image_data = ''fake-image'', extracted_json = JNull,
         created_at = 1, updated_at = 1\<rparr>]) ''abc123'' =
     Some \<lparr>task_id = ''abc123'', image_data = ''fake-image'', extracted_json = JNull,
           created_at = 1, updated_at = 1\<rparr>
   \<and> process_task_try raising_stub \<lparr>commit_error = None, utcnow = 2\<rparr>
       (SessionLocal [\<lparr>task_id = ''abc123'', image_data = ''fake-image'', extracted_json = JNull,
         created_at = 1, updated_at = 1\<rparr>]) ''abc123''
       \<lparr>task_id = ''abc123'', image_data = ''fake-image'', extracted_json = JNull,
         created_at = 1, updated_at = 1\<rparr> =
     (Inl (LibraryError ''TimeoutError''),
      SessionLocal [\<lparr>task_id = ''abc123'', image_data = ''fake-image'', extracted_json = JNull,
         created_at = 1, updated_at = 1\<rparr>], [])
   \<and> process_task raising_stub \<lparr>commit_error = None, utcnow = 2\<rparr>
       [\<lparr>task_id = ''abc123'', image_data = ''fake-image'', extracted_json = JNull,
         created_at = 1, updated_at = 1\<rparr>] ''abc123'' =
     (Inr (),
      [\<lparr>task_id = ''abc123'', image_data = ''fake-image'', extracted_json = JNull,
        created_at = 1, updated_at = 1\<rparr>],
      [Error_processing_task ''abc123'' (LibraryError ''TimeoutError'')])"
proof -
  let ?row = "\<lparr>task_id = ''abc123'', image_data = ''fake-image'', extracted_json = JNull,
         created_at = 1, updated_at = 1\<rparr>"
  have q: "query_first (SessionLocal [?row]) ''abc123'' = Some ?row"
    by (rule scenario_query)
  have t: "process_task_try raising_stub \<lparr>commit_error = None, utcnow = 2\<rparr>
       (SessionLocal [?row]) ''abc123'' ?row =
     (Inl (LibraryError ''TimeoutError''), SessionLocal [?row], [])"
    by (simp add: process_task_try_def raising_stub_def)
  show ?thesis
    using q t process_task_error_rolls_back[OF q t] by simp
qed

text \<open>
  Claim C5 as it is stated (after the rollback the processor writes the empty result object
  to the task) does not hold: when the commit fails, and when a collaborator raises, the row
  is left with no result, and the poll still answers "processing".
\<close>

theorem rollback_writes_nothing_counterexample:
  "process_task (json_parser stub_env)
     \<lparr>commit_error = Some (LibraryError ''OperationalError''), utcnow = 2\<rparr>
     [\<lparr>task_id = ''abc123'', image_data = ''fake-image'', extracted_json = JNull,
       created_at = 1, updated_at = 1\<rparr>] ''abc123'' =
     (Inr (),
      [\<lparr>task_id = ''abc123'', image_data = ''fake-image'', extracted_json = JNull,
        created_at = 1, updated_at = 1\<rparr>],
      [Print_url ''https://tmpfiles.org/dl/1/receipt.jpg'',
       Error_processing_task ''abc123'' (LibraryError ''OperationalError'')])
   \<and> process_task raising_stub \<lparr>commit_error = None, utcnow = 2\<rparr>
     [\<lparr>task_id = ''abc123'', image_data = ''fake-image'', extracted_json = JNull,
       created_at = 1, updated_at = 1\<rparr>] ''abc123'' =
     (Inr (),
      [\<lparr>task_id = ''abc123'', image_data = ''fake-image'', extracted_json = JNull,
        created_at = 1, updated_at = 1\<rparr>],
      [Error_processing_task ''abc123'' (LibraryError ''TimeoutError'')])
   \<and> get_task
       [\<lparr>task_id = ''abc123'', image_data = ''fake-image'', extracted_json = JNull,
         created_at = 1, updated_at = 1\<rparr>] ''abc123'' =
     Inr [(''task_id'', JString ''abc123''), (''status'', JString ''processing'')]"
  by (simp add: process_task_def process_task_try_def json_parser_def stub_parse_image
      raising_stub_def query_first_def SessionLocal_def db_commit_def set_extracted_json_def
      db_rollback_def db_close_def get_task_def)

subsection \<open>C6\<close>

text \<open>
  Claim C6. When the commit fails while the processor runs on an existing task, the
  processor returns without raising and the table is unchanged; a task that had no result
  still has none, and the poll answers "processing".
\<close>

theorem commit_failure_leaves_task_processing:
  assumes q: "query_first (SessionLocal tbl) tid = Some t"
    and c: "commit_error denv = Some e"
  shows "\<exists>tbl' out.
           process_task (json_parser env) denv tbl tid = (Inr (), tbl', out)
         \<and> tbl' = tbl
         \<and> (extracted_json t = JNull \<longrightarrow>
              get_task tbl' tid = Inr [(''task_id'', JString tid), (''status'', JString ''processing'')])"
proof -
  obtain v out where p: "parse_image env (image_data t) = (Inr v, out)"
    using parse_image_returns by blast
  have "process_task_try (json_parser env) denv (SessionLocal tbl) tid t =
      (Inl e, set_extracted_json (SessionLocal tbl) (task_id t) v, out)"
    by (simp add: process_task_try_def json_parser_def p db_commit_failure[OF c])
  from process_task_raised(1)[OF q this] get_task_found[OF q]
  show ?thesis by simp
qed

text \<open>The theorem at one task, with its hypotheses met.\<close>

theorem commit_failure_leaves_task_processing_witness:
  "query_first (SessionLocal
       [\<lparr>task_id = ''abc123'', image_data = ''fake-image'', extracted_json = JNull,
         created_at = 1, updated_at = 1\<rparr>]) ''abc123'' =
     Some \<lparr>task_id = ''abc123'', image_data = ''fake-image'', extracted_json = JNull,
           created_at = 1, updated_at = 1\<rparr>
   \<and> commit_error \<lparr>commit_error = Some (LibraryError ''OperationalError''), utcnow = 2\<rparr> =
       Some (LibraryError ''OperationalError'')
   \<and> (\<exists>out. process_task (json_parser stub_env)
          \<lparr>commit_error = Some (LibraryError ''OperationalError''), utcnow = 2\<rparr>
          [\<lparr>task_id = ''abc123'', image_data = ''fake-image'', extracted_json = JNull,
            created_at = 1, updated_at = 1\<rparr>] ''abc123'' =
        (Inr (),
         [\<lparr>task_id = ''abc123'', image_data = ''fake-image'', extracted_json = JNull,
           created_at = 1, updated_at = 1\<rparr>], out))
   \<and> get_task
       [\<lparr>task_id = ''abc123'', image_data = ''fake-image'', extracted_json = JNull,
         created_at = 1, updated_at = 1\<rparr>] ''abc123'' =
     Inr [(''task_id'', JString ''abc123''), (''status'', JString ''processing'')]"
  using commit_failure_leaves_task_processing[where tbl = "[\<lparr>task_id = ''abc123'',
      image_data = ''fake-image'', extracted_json = JNull, created_at = 1, updated_at = 1\<rparr>]"
      and tid = "''abc123''"
      and t = "\<lparr>task_id = ''abc123'', image_data = ''fake-image'',
      extracted_json = JNull, created_at = 1, updated_at = 1\<rparr>" and env = stub_env
      and e = "LibraryError ''OperationalError''"
      and denv = "\<lparr>commit_error = Some (LibraryError ''OperationalError''), utcnow = 2\<rparr>"]
  by (simp add: scenario_query)

subsection \<open>C7\<close>

text \<open>
  Claim C7. Whatever a run of the processor does, the rows keep their order, their
  \<^verbatim>\<open>task_id\<close>, \<^verbatim>\<open>image_data\<close> and \<^verbatim>\<open>created_at\<close>, and every row with
  another identifier is exactly as before: only \<^verbatim>\<open>extracted_json\<close> and
  \<^verbatim>\<open>updated_at\<close> of the processed task can change.
\<close>

theorem process_task_frame:
  assumes "process_task collaborator denv tbl tid = (r, tbl', out)"
  shows "map task_id tbl' = map task_id tbl
       \<and> map image_data tbl' = map image_data tbl
       \<and> map created_at tbl' = map created_at tbl
       \<and> (\<forall>i<length tbl. task_id (tbl ! i) \<noteq> tid \<longrightarrow> tbl' ! i = tbl ! i)"
proof -
  have "tbl' = tbl \<or> (\<exists>j. tbl' = map (set_result (utcnow denv) tid j) tbl)"
    using process_task_table[of collaborator denv tbl tid] assms by simp
  then show ?thesis
    by (auto simp: set_result_def comp_def)
qed

text \<open>The theorem at one task, with its hypotheses met.\<close>

theorem process_task_frame_witness:
  "process_task (json_parser stub_env) \<lparr>commit_error = None, utcnow = 3\<rparr>
       [\<lparr>task_id = ''abc123'', image_data = ''fake-image'', extracted_json = JNull,
         created_at = 1, updated_at = 1\<rparr>,
        \<lparr>task_id = ''def456'', image_data = ''other-image'', extracted_json = JNull,
         created_at = 2, updated_at = 2\<rparr>] ''abc123'' =
     (Inr (),
      [\<lparr>task_id = ''abc123'', image_data = ''fake-image'',
        extracted_json = JObject [(''total_amount'', JFloat (25 / 2)), (''items'', JArray [])],
        created_at = 1, updated_at = 3\<rparr>,
       \<lparr>task_id = ''def456'', image_data = ''other-image'', extracted_json = JNull,
        created_at = 2, updated_at = 2\<rparr>],
      [Print_url ''https://tmpfiles.org/dl/1/receipt.jpg'', Task_processed ''abc123''])
   \<and> map task_id
       [\<lparr>task_id = ''abc123'', image_data = ''fake-image'',
         extracted_json = JObject [(''total_amount'', JFloat (25 / 2)), (''items'', JArray [])],
         created_at = 1, updated_at = 3\<rparr>,
        \<lparr>task_id = ''def456'', image_data = ''other-image'', extracted_json = JNull,
         created_at = 2, updated_at = 2\<rparr>] = [''abc123'', ''def456'']
   \<and> map image_data
       [\<lparr>task_id = ''abc123'', image_data = ''fake-image'',
         extracted_json = JObject [(''total_amount'', JFloat (25 / 2)), (''items'', JArray [])],
         created_at = 1, updated_at = 3\<rparr>,
        \<lparr>task_id = ''def456'', image_data = ''other-image'', extracted_json = JNull,
         created_at = 2, updated_at = 2\<rparr>] = [''fake-image'', ''other-image'']
   \<and> map created_at
       [\<lparr>task_id = ''abc123'', image_data = ''fake-image'',
         extracted_json = JObject [(''total_amount'', JFloat (25 / 2)), (''items'', JArray [])],
         created_at = 1, updated_at = 3\<rparr>,
        \<lparr>task_id = ''def456'', image_data = ''other-image'', extracted_json = JNull,
         created_at = 2, updated_at = 2\<rparr>] = [1, 2]"
  using process_task_frame[OF stub_process_two_rows] stub_process_two_rows
  by simp

subsection \<open>C8\<close>

text \<open>
  Claim C8. \<^verbatim>\<open>create_task\<close> gives the identifier to the background queue only after
  the commit has succeeded: when the commit raises, the table and the queue are unchanged;
  when a response is returned, it holds the identifier, the committed table has the new row
  with no result yet (the handler has not run the processor), and the queue has the
  identifier as its last entry.
\<close>

theorem create_task_commits_before_scheduling:
  assumes "create_task uuid denv tbl contents bg = (r, tbl', bg')"
  shows "(\<forall>e. r = Inl e \<longrightarrow> tbl' = tbl \<and> bg' = bg)
       \<and> (\<forall>resp. r = Inr resp \<longrightarrow>
            resp = [(''task_id'', JString uuid)]
          \<and> query_first (SessionLocal tbl') uuid =
              Some \<lparr>task_id = uuid, image_data = contents, extracted_json = JNull,
                    created_at = utcnow denv, updated_at = utcnow denv\<rparr>
          \<and> bg' = (case bg of None \<Rightarrow> None | Some queue \<Rightarrow> Some (queue @ [uuid])))"
proof -
  from create_task_cases[of uuid denv tbl contents bg] show ?thesis
  proof (elim disjE exE conjE)
    fix e
    assume "create_task uuid denv tbl contents bg = (Inl e, tbl, bg)"
    with assms show ?thesis by auto
  next
    assume f: "uuid \<notin> set (map task_id tbl)" and c: "commit_error denv = None"
    from create_task_committed[OF c f] assms query_first_new_row[OF f]
    show ?thesis by auto
  qed
qed

text \<open>The theorem at one task, with its hypotheses met.\<close>

theorem create_task_commits_before_scheduling_witness:
  "create_task ''abc123'' \<lparr>commit_error = None, utcnow = 1\<rparr> [] ''fake-image'' (Some []) =
     (Inr [(''task_id'', JString ''abc123'')],
      [\<lparr>task_id = ''abc123'', image_data = ''fake-image'', extracted_json = JNull,
        created_at = 1, updated_at = 1\<rparr>],
      Some [''abc123''])
   \<and> query_first (SessionLocal
       [\<lparr>task_id = ''abc123'', image_data = ''fake-image'', extracted_json = JNull,
         created_at = 1, updated_at = 1\<rparr>]) ''abc123'' =
     Some \<lparr>task_id = ''abc123'', image_data = ''fake-image'', extracted_json = JNull,
           created_at = 1, updated_at = 1\<rparr>
   \<and> create_task ''abc123'' \<lparr>commit_error = Some (LibraryError ''OperationalError''), utcnow = 1\<rparr>
       [] ''fake-image'' (Some []) =
     (Inl (LibraryError ''OperationalError''), [], Some [])"
proof -
  have ok: "create_task ''abc123'' \<lparr>commit_error = None, utcnow = 1\<rparr> [] ''fake-image'' (Some []) =
     (Inr [(''task_id'', JString ''abc123'')],
      [\<lparr>task_id = ''abc123'', image_data = ''fake-image'', extracted_json = JNull,
        created_at = 1, updated_at = 1\<rparr>],
      Some [''abc123''])"
    by (simp add: create_task_committed)
  have bad: "create_task ''abc123'' \<lparr>commit_error = Some (LibraryError ''OperationalError''), utcnow = 1\<rparr>
       [] ''fake-image'' (Some []) =
     (Inl (LibraryError ''OperationalError''), [], Some [])"
    by (simp add: create_task_storage_failure)
  from create_task_commits_before_scheduling[OF ok]
  have q: "query_first (SessionLocal
       [\<lparr>task_id = ''abc123'', image_data = ''fake-image'', extracted_json = JNull,
         created_at = 1, updated_at = 1\<rparr>]) ''abc123'' =
     Some \<lparr>task_id = ''abc123'', image_data = ''fake-image'', extracted_json = JNull,
           created_at = 1, updated_at = 1\<rparr>"
    by simp
  show ?thesis by (rule conjI[OF ok conjI[OF q bad]])
qed

subsection \<open>C9\<close>

text \<open>
  Claim C9. When the commit succeeds for an identifier that no row has, \<^verbatim>\<open>create_task\<close>
  returns the response with that identifier; and whenever it returns a response, the
  identifier was in no row before (a drawn identifier that is already a primary key makes
  the commit raise), the table has one more row with the uploaded bytes and no result, and
  the poll on the identifier answers "processing".
\<close>

theorem create_task_fresh_and_processing:
  "(commit_error denv = None \<and> uuid \<notin> set (map task_id tbl) \<longrightarrow>
      (\<exists>tbl' bg'. create_task uuid denv tbl contents bg =
         (Inr [(''task_id'', JString uuid)], tbl', bg')))
   \<and> (create_task uuid denv tbl contents bg = (Inr resp, tbl', bg') \<longrightarrow>
        resp = [(''task_id'', JString uuid)]
      \<and> uuid \<notin> set (map task_id tbl)
      \<and> tbl' = tbl @ [\<lparr>task_id = uuid, image_data = contents, extracted_json = JNull,
                        created_at = utcnow denv, updated_at = utcnow denv\<rparr>]
      \<and> get_task tbl' uuid =
          Inr [(''task_id'', JString uuid), (''status'', JString ''processing'')])"
proof (intro conjI impI)
  assume "commit_error denv = None \<and> uuid \<notin> set (map task_id tbl)"
  then show "\<exists>tbl' bg'. create_task uuid denv tbl contents bg =
         (Inr [(''task_id'', JString uuid)], tbl', bg')"
    by (simp add: create_task_committed)
next
  assume a: "create_task uuid denv tbl contents bg = (Inr resp, tbl', bg')"
  then have f: "uuid \<notin> set (map task_id tbl)" and c: "commit_error denv = None"
    using create_task_cases[of uuid denv tbl contents bg] by auto
  from create_task_committed[OF c f] a
  have r: "resp = [(''task_id'', JString uuid)]"
    and t: "tbl' = tbl @ [\<lparr>task_id = uuid, image_data = contents, extracted_json = JNull,
                        created_at = utcnow denv, updated_at = utcnow denv\<rparr>]"
    by simp_all
  show "resp = [(''task_id'', JString uuid)]" by (rule r)
  show "uuid \<notin> set (map task_id tbl)" by (rule f)
  show "tbl' = tbl @ [\<lparr>task_id = uuid, image_data = contents, extracted_json = JNull,
                        created_at = utcnow denv, updated_at = utcnow denv\<rparr>]" by (rule t)
  show "get_task tbl' uuid =
          Inr [(''task_id'', JString uuid), (''status'', JString ''processing'')]"
    using get_task_found[OF query_first_new_row[OF f]] by (simp add: t)
qed

text \<open>The theorem at one task, with its hypotheses met.\<close>

theorem create_task_fresh_and_processing_witness:
  "commit_error \<lparr>commit_error = None, utcnow = 1\<rparr> = None
   \<and> ''abc123'' \<notin> set (map task_id [])
   \<and> create_task ''abc123'' \<lparr>commit_error = None, utcnow = 1\<rparr> [] ''fake-image'' (Some []) =
     (Inr [(''task_id'', JString ''abc123'')],
      [\<lparr>task_id = ''abc123'', image_data = ''fake-image'', extracted_json = JNull,
        created_at = 1, updated_at = 1\<rparr>],
      Some [''abc123''])
   \<and> get_task
       [\<lparr>task_id = ''abc123'', image_data = ''fake-image'', extracted_json = JNull,
         created_at = 1, updated_at = 1\<rparr>] ''abc123'' =
     Inr [(''task_id'', JString ''abc123''), (''status'', JString ''processing'')]"
proof -
  have ok: "create_task ''abc123'' \<lparr>commit_error = None, utcnow = 1\<rparr> [] ''fake-image'' (Some []) =
     (Inr [(''task_id'', JString ''abc123'')],
      [\<lparr>task_id = ''abc123'', image_data = ''fake-image'', extracted_json = JNull,
        created_at = 1, updated_at = 1\<rparr>],
      Some [''abc123''])"
    by (simp add: create_task_committed)
  show ?thesis
    using ok create_task_fresh_and_processing[where uuid = "''abc123''"
        and denv = "\<lparr>commit_error = None, utcnow = 1\<rparr>" and tbl = "[]"
        and contents = "''fake-image''" and bg = "Some []"
        and resp = "[(''task_id'', JString ''abc123'')]"
        and tbl' = "[\<lparr>task_id = ''abc123'', image_data = ''fake-image'', extracted_json = JNull,
          created_at = 1, updated_at = 1\<rparr>]" and bg' = "Some [''abc123'']"]
    by simp
qed

subsection \<open>C10\<close>

text \<open>
  Claim C10. \<^verbatim>\<open>parse_image\<close> always returns a value and never raises; when the body
  of its \<^verbatim>\<open>try\<close> raises it returns the empty mapping, in particular when the upload
  fails, when the model call fails and when \<^verbatim>\<open>json.loads\<close> rejects the model's text.
\<close>

theorem parse_image_total:
  "(\<exists>v out. parse_image env img = (Inr v, out))
   \<and> (fst (parse_image_try env img) = Inl e \<longrightarrow> fst (parse_image env img) = Inr (JObject []))
   \<and> (fst (upload_to_tmpfiles env img) = Inl e \<longrightarrow> fst (parse_image env img) = Inr (JObject []))
   \<and> (fst (upload_to_tmpfiles env img) = Inr image_url
        \<and> chat_completions_create env image_url = Inl e \<longrightarrow>
      fst (parse_image env img) = Inr (JObject []))
   \<and> (fst (upload_to_tmpfiles env img) = Inr image_url
        \<and> chat_completions_create env image_url = Inr (Some json_text # choices)
        \<and> json_loads env (str_replace (str_replace json_text ''```json'' []) ''```'' []) = Inl e \<longrightarrow>
      fst (parse_image env img) = Inr (JObject []))"
  using parse_image_returns[of env img]
    parse_image_failure_result[OF parse_image_try_upload_error, of env img e]
    parse_image_failure_result[OF parse_image_try_model_error, of env img image_url e]
    parse_image_failure_result[OF parse_image_try_unparsable, of env img image_url json_text choices e]
    parse_image_failure_result[of env img e]
  by blast

text \<open>The theorem at one task, with its hypotheses met.\<close>

theorem parse_image_total_witness:
  "fst (upload_to_tmpfiles offline_env ''fake-image'') =
     Inl (Exception ''Failed to upload image to tmpfiles.org: '' (LibraryError ''ConnectionError''))
   \<and> fst (parse_image_try offline_env ''fake-image'') =
     Inl (Exception ''Failed to upload image to tmpfiles.org: '' (LibraryError ''ConnectionError''))
   \<and> (\<exists>v out. parse_image offline_env ''fake-image'' = (Inr v, out))
   \<and> fst (parse_image offline_env ''fake-image'') = Inr (JObject [])
   \<and> fst (upload_to_tmpfiles model_down_env ''fake-image'') =
       Inr ''https://tmpfiles.org/dl/1/receipt.jpg''
   \<and> chat_completions_create model_down_env ''https://tmpfiles.org/dl/1/receipt.jpg'' =
       Inl (LibraryError ''ServiceUnavailableError'')
   \<and> fst (parse_image model_down_env ''fake-image'') = Inr (JObject [])
   \<and> fst (upload_to_tmpfiles garbled_env ''fake-image'') =
       Inr ''https://tmpfiles.org/dl/1/receipt.jpg''
   \<and> chat_completions_create garbled_env ''https://tmpfiles.org/dl/1/receipt.jpg'' =
       Inr [Some ''```I cannot read this receipt.```'']
   \<and> json_loads garbled_env
         (str_replace (str_replace ''```I cannot read this receipt.```'' ''```json'' []) ''```'' []) =
       Inl (LibraryError ''JSONDecodeError'')
   \<and> fst (parse_image garbled_env ''fake-image'') = Inr (JObject [])"
proof -
  have u: "fst (upload_to_tmpfiles offline_env ''fake-image'') =
     Inl (Exception ''Failed to upload image to tmpfiles.org: '' (LibraryError ''ConnectionError''))"
    by (simp add: upload_to_tmpfiles_def upload_to_tmpfiles_try_def offline_env_def bind_exn_def)
  have offline: "fst (parse_image_try offline_env ''fake-image'') =
       Inl (Exception ''Failed to upload image to tmpfiles.org: '' (LibraryError ''ConnectionError''))
     \<and> (\<exists>v out. parse_image offline_env ''fake-image'' = (Inr v, out))
     \<and> fst (parse_image offline_env ''fake-image'') = Inr (JObject [])"
    using u parse_image_total[where env = offline_env and img = "''fake-image''"
        and e = "Exception ''Failed to upload image to tmpfiles.org: '' (LibraryError ''ConnectionError'')"]
    by (simp add: offline_parse_image_try)
  have m1: "fst (upload_to_tmpfiles model_down_env ''fake-image'') =
       Inr ''https://tmpfiles.org/dl/1/receipt.jpg''"
    by (simp add: model_down_upload)
  have m2: "chat_completions_create model_down_env ''https://tmpfiles.org/dl/1/receipt.jpg'' =
       Inl (LibraryError ''ServiceUnavailableError'')"
    by (simp add: model_down_env_def)
  have m3: "fst (parse_image model_down_env ''fake-image'') = Inr (JObject [])"
    using m1 m2 parse_image_total[where env = model_down_env and img = "''fake-image''"
        and image_url = "''https://tmpfiles.org/dl/1/receipt.jpg''"
        and e = "LibraryError ''ServiceUnavailableError''"]
    by blast
  have g1: "fst (upload_to_tmpfiles garbled_env ''fake-image'') =
       Inr ''https://tmpfiles.org/dl/1/receipt.jpg''"
    by (simp add: garbled_upload)
  have g2: "chat_completions_create garbled_env ''https://tmpfiles.org/dl/1/receipt.jpg'' =
       Inr [Some ''```I cannot read this receipt.```'']"
    by (simp add: garbled_env_def)
  have g3: "json_loads garbled_env
         (str_replace (str_replace ''```I cannot read this receipt.```'' ''```json'' []) ''```'' []) =
       Inl (LibraryError ''JSONDecodeError'')"
    unfolding garbled_text by (simp add: garbled_env_def stub_env_def)
  have g4: "fst (parse_image garbled_env ''fake-image'') = Inr (JObject [])"
    using g1 g2 g3 parse_image_total[where env = garbled_env and img = "''fake-image''"
        and image_url = "''https://tmpfiles.org/dl/1/receipt.jpg''"
        and json_text = "''```I cannot read this receipt.```''" and choices = "[]"
        and e = "LibraryError ''JSONDecodeError''"]
    by blast
  from u offline m1 m2 m3 g1 g2 g3 g4 show ?thesis by blast
qed

end
